theory Spec2Isabelle
  imports Complex_Main "HOL-Library.AList"
begin

section \<open>Numbers\<close>

text \<open>
  A TypeScript \<^verbatim>\<open>number\<close> is modelled as a real number or one of the three special
  values of the language: \<open>Infinity\<close>, \<open>-Infinity\<close> and \<open>NaN\<close>. The arithmetic on finite
  values is the exact one (no binary rounding, one zero); the special values
  follow the language: a division of a non-zero number by zero is infinite, \<open>0 / 0\<close>,
  \<open>Infinity - Infinity\<close> and \<open>0 * Infinity\<close> are \<open>NaN\<close>, \<open>NaN\<close> propagates through every
  operation and every comparison with \<open>NaN\<close> is false.
\<close>

datatype number = Fin real | PInf | NInf | NaN

fun is_finite :: "number \<Rightarrow> bool" where
  "is_finite (Fin a) = True"
| "is_finite PInf = False"
| "is_finite NInf = False"
| "is_finite NaN = False"

text \<open>Unary minus.\<close>

fun js_neg :: "number \<Rightarrow> number" where
  "js_neg (Fin a) = Fin (- a)"
| "js_neg PInf = NInf"
| "js_neg NInf = PInf"
| "js_neg NaN = NaN"

text \<open>The operator \<^verbatim>\<open>+\<close> on numbers.\<close>

fun js_add :: "number \<Rightarrow> number \<Rightarrow> number" where
  "js_add (Fin a) (Fin b) = Fin (a + b)"
| "js_add (Fin a) PInf = PInf"
| "js_add (Fin a) NInf = NInf"
| "js_add PInf (Fin b) = PInf"
| "js_add PInf PInf = PInf"
| "js_add PInf NInf = NaN"
| "js_add NInf (Fin b) = NInf"
| "js_add NInf PInf = NaN"
| "js_add NInf NInf = NInf"
| "js_add NaN b = NaN"
| "js_add a NaN = NaN"

text \<open>The operator \<^verbatim>\<open>-\<close> on numbers.\<close>

definition js_sub :: "number \<Rightarrow> number \<Rightarrow> number" where
  "js_sub a b = js_add a (js_neg b)"

text \<open>The infinity that has the sign of a non-zero real.\<close>

definition inf_of_sign :: "real \<Rightarrow> number" where
  "inf_of_sign a = (if 0 < a then PInf else NInf)"

text \<open>The operator \<^verbatim>\<open>*\<close> on numbers.\<close>

fun js_mul :: "number \<Rightarrow> number \<Rightarrow> number" where
  "js_mul (Fin a) (Fin b) = Fin (a * b)"
| "js_mul (Fin a) PInf = (if a = 0 then NaN else inf_of_sign a)"
| "js_mul (Fin a) NInf = (if a = 0 then NaN else inf_of_sign (- a))"
| "js_mul PInf (Fin b) = (if b = 0 then NaN else inf_of_sign b)"
| "js_mul PInf PInf = PInf"
| "js_mul PInf NInf = NInf"
| "js_mul NInf (Fin b) = (if b = 0 then NaN else inf_of_sign (- b))"
| "js_mul NInf PInf = NInf"
| "js_mul NInf NInf = PInf"
| "js_mul NaN b = NaN"
| "js_mul a NaN = NaN"

text \<open>
  The operator \<^verbatim>\<open>/\<close> on numbers. A finite divisor that is zero stands for the positive
  zero: the only divisors of the program are the constant \<open>100\<close>, a sum \<open>1 + x\<close> (which
  is never the negative zero) and a number that has been tested to be positive.
\<close>

fun js_div :: "number \<Rightarrow> number \<Rightarrow> number" where
  "js_div (Fin a) (Fin b) =
     (if b = 0 then (if a = 0 then NaN else inf_of_sign a) else Fin (a / b))"
| "js_div (Fin a) PInf = Fin 0"
| "js_div (Fin a) NInf = Fin 0"
| "js_div PInf (Fin b) = (if 0 \<le> b then PInf else NInf)"
| "js_div PInf PInf = NaN"
| "js_div PInf NInf = NaN"
| "js_div NInf (Fin b) = (if 0 \<le> b then NInf else PInf)"
| "js_div NInf PInf = NaN"
| "js_div NInf NInf = NaN"
| "js_div NaN b = NaN"
| "js_div a NaN = NaN"

text \<open>The comparison \<^verbatim>\<open><=\<close> on numbers.\<close>

fun js_le :: "number \<Rightarrow> number \<Rightarrow> bool" where
  "js_le (Fin a) (Fin b) = (a \<le> b)"
| "js_le (Fin a) PInf = True"
| "js_le (Fin a) NInf = False"
| "js_le PInf (Fin b) = False"
| "js_le PInf PInf = True"
| "js_le PInf NInf = False"
| "js_le NInf (Fin b) = True"
| "js_le NInf PInf = True"
| "js_le NInf NInf = True"
| "js_le NaN b = False"
| "js_le a NaN = False"

text \<open>\<^verbatim>\<open>Math.max\<close> and \<^verbatim>\<open>Math.min\<close> of two numbers: \<open>NaN\<close> if either is \<open>NaN\<close>.\<close>

fun Math_max :: "number \<Rightarrow> number \<Rightarrow> number" where
  "Math_max NaN b = NaN"
| "Math_max a NaN = NaN"
| "Math_max a b = (if js_le a b then b else a)"

fun Math_min :: "number \<Rightarrow> number \<Rightarrow> number" where
  "Math_min NaN b = NaN"
| "Math_min a NaN = NaN"
| "Math_min a b = (if js_le a b then a else b)"

text \<open>\<^verbatim>\<open>Math.round\<close>: the nearest integer, a tie going to the larger one.\<close>

fun Math_round :: "number \<Rightarrow> number" where
  "Math_round (Fin a) = Fin (of_int \<lfloor>a + 1 / 2\<rfloor>)"
| "Math_round PInf = PInf"
| "Math_round NInf = NInf"
| "Math_round NaN = NaN"

text \<open>
  A double is finite up to a limit: an exact result that reaches \<open>2^1024 - 2^970\<close> in
  magnitude is rounded to an infinity. \<open>overflow\<close> gives the value that the language has
  for a number of the exact arithmetic; the price store applies it to its products, which
  scale a price. The other results of the program are the exact ones.
\<close>

definition double_limit :: real where
  "double_limit = 2 ^ 1024 - 2 ^ 970"

definition overflow :: "number \<Rightarrow> number" where
  "overflow n =
     (case n of
        Fin a \<Rightarrow> (if double_limit \<le> a then PInf else if a \<le> - double_limit then NInf else Fin a)
      | PInf \<Rightarrow> PInf
      | NInf \<Rightarrow> NInf
      | NaN \<Rightarrow> NaN)"

section \<open>The price store (\<^verbatim>\<open>services/prices.mock.ts\<close>)\<close>

record PricePoint =
  symbol :: string
  price :: number
  change24hPct :: number

text \<open>
  A \<^verbatim>\<open>PriceMap\<close> is an object used as a dictionary. It is modelled as the list of its
  own properties in the order \<^verbatim>\<open>Object.keys\<close> gives them. An object has every key once,
  which is the predicate \<open>object\<close>.
\<close>

type_synonym PriceMap = "(string \<times> PricePoint) list"

definition object :: "(string \<times> 'v) list \<Rightarrow> bool" where
  "object m = distinct (map fst m)"

definition Object_keys :: "(string \<times> 'v) list \<Rightarrow> string list" where
  "Object_keys m = map fst m"

text \<open>The object spread \<^verbatim>\<open>{ ...m }\<close>: a new object that receives every property of \<open>m\<close>.\<close>

definition spread :: "(string \<times> 'v) list \<Rightarrow> (string \<times> 'v) list" where
  "spread m = foldl (\<lambda>acc (k, v). AList.update k v acc) [] m"

text \<open>The initial value of the module variable \<^verbatim>\<open>state\<close>.\<close>

definition state :: PriceMap where
  "state =
    [(''BTC'', \<lparr>symbol = ''BTC'', price = Fin 1185000, change24hPct = Fin (142 / 100)\<rparr>),
     (''ETH'', \<lparr>symbol = ''ETH'', price = Fin 62450, change24hPct = Fin (- 85 / 100)\<rparr>),
     (''SOL'', \<lparr>symbol = ''SOL'', price = Fin 3250, change24hPct = Fin (312 / 100)\<rparr>),
     (''XRP'', \<lparr>symbol = ''XRP'', price = Fin (118 / 10), change24hPct = Fin (24 / 100)\<rparr>)]"

text \<open>
  \<^verbatim>\<open>randBetween(min, max)\<close> reads \<^verbatim>\<open>Math.random()\<close>; the value read is the first
  argument \<open>u\<close> of the model.
\<close>

definition randBetween :: "number \<Rightarrow> number \<Rightarrow> number \<Rightarrow> number" where
  "randBetween u mn mx = js_add (js_mul u (js_sub mx mn)) mn"

text \<open>\<^verbatim>\<open>round2\<close>: the scaled number \<^verbatim>\<open>n * 100\<close> can leave the range of doubles.\<close>

definition round2 :: "number \<Rightarrow> number" where
  "round2 n = js_div (Math_round (overflow (js_mul n (Fin 100)))) (Fin 100)"

text \<open>
  \<^verbatim>\<open>getMockPrices\<close> takes the value of the module variable and returns the copy together
  with the value the variable has afterwards.
\<close>

definition getMockPrices :: "PriceMap \<Rightarrow> PriceMap \<times> PriceMap" where
  "getMockPrices st = (spread st, st)"

datatype js_error = TypeError

text \<open>
  The loop of \<^verbatim>\<open>refreshMockPrices\<close> over \<^verbatim>\<open>Object.keys(state)\<close>. The random source
  \<open>rnd\<close> gives the successive values of \<^verbatim>\<open>Math.random()\<close>, \<open>i\<close> counts the values
  already read, \<open>nxt\<close> is the object \<^verbatim>\<open>next\<close> under construction. Reading a property of
  \<^verbatim>\<open>undefined\<close> throws a \<^verbatim>\<open>TypeError\<close>. The assignment \<^verbatim>\<open>next[sym] = ...\<close> adds the
  property \<^verbatim>\<open>sym\<close> to \<^verbatim>\<open>next\<close>, except for the key \<^verbatim>\<open>__proto__\<close>: there it calls the setter
  that \<^verbatim>\<open>next\<close> inherits, which replaces the prototype of \<^verbatim>\<open>next\<close> and adds no property.
\<close>

fun refresh_loop ::
  "(nat \<Rightarrow> real) \<Rightarrow> nat \<Rightarrow> PriceMap \<Rightarrow> string list \<Rightarrow> PriceMap \<Rightarrow> js_error + PriceMap" where
  "refresh_loop rnd i st [] nxt = Inr nxt"
| "refresh_loop rnd i st (symb # syms) nxt =
     (case map_of st symb of
        None \<Rightarrow> Inl TypeError
      | Some current \<Rightarrow>
          (let driftPct = randBetween (Fin (rnd i)) (Fin (- 12 / 10)) (Fin (12 / 10));
               nextPrice = overflow
                 (js_mul (price current) (js_add (Fin 1) (js_div driftPct (Fin 100))));
               nextChange = js_add (change24hPct current)
                              (randBetween (Fin (rnd (i + 1))) (Fin (- 6 / 10)) (Fin (6 / 10)))
           in refresh_loop rnd (i + 2) st syms
                (if symb = ''__proto__'' then nxt
                 else AList.update symb
                        \<lparr>symbol = symb, price = round2 nextPrice, change24hPct = round2 nextChange\<rparr>
                        nxt)))"

text \<open>
  \<^verbatim>\<open>refreshMockPrices\<close>: the result is the error thrown, or the copy returned together
  with the new value of the module variable. The artificial latency is not modelled.
\<close>

definition refreshMockPrices ::
  "(nat \<Rightarrow> real) \<Rightarrow> PriceMap \<Rightarrow> js_error + (PriceMap \<times> PriceMap)" where
  "refreshMockPrices rnd st =
     (case refresh_loop rnd 0 st (Object_keys st) [] of
        Inl e \<Rightarrow> Inl e
      | Inr nxt \<Rightarrow> Inr (spread nxt, nxt))"

section \<open>The dashboard (\<^verbatim>\<open>DashboardPage\<close>)\<close>

record Holding =
  id_h :: string
  symbol_h :: string
  name_h :: string
  amount :: number

text \<open>A row is the holding (\<^verbatim>\<open>...h\<close>) extended by four derived fields.\<close>

record Row = Holding +
  priceNow :: number
  change24hPct_r :: number
  valueNow :: number
  valueChange :: number

datatype Currency = ZAR

text \<open>The state of the component: the three \<^verbatim>\<open>useState\<close> cells.\<close>

record View =
  currency :: Currency
  prices :: PriceMap
  loadingPrices :: bool

text \<open>The mocked holdings.\<close>

definition holdings :: "Holding list" where
  "holdings =
    [\<lparr>id_h = ''btc'', symbol_h = ''BTC'', name_h = ''Bitcoin'', amount = Fin (523 / 10000)\<rparr>,
     \<lparr>id_h = ''eth'', symbol_h = ''ETH'', name_h = ''Ethereum'', amount = Fin (84 / 100)\<rparr>,
     \<lparr>id_h = ''sol'', symbol_h = ''SOL'', name_h = ''Solana'', amount = Fin (124 / 10)\<rparr>,
     \<lparr>id_h = ''xrp'', symbol_h = ''XRP'', name_h = ''XRP'', amount = Fin 580\<rparr>]"

text \<open>\<^verbatim>\<open>clamp(n, min, max)\<close>.\<close>

definition clamp :: "number \<Rightarrow> number \<Rightarrow> number \<Rightarrow> number" where
  "clamp n mn mx = Math_max mn (Math_min mx n)"

text \<open>
  The expression \<^verbatim>\<open>priceNow / (1 + change24hPct / 100)\<close>, which the component writes
  twice: in the rows and in the day change.
\<close>

definition priceYesterday :: "number \<Rightarrow> number \<Rightarrow> number" where
  "priceYesterday pn ch = js_div pn (js_add (Fin 1) (js_div ch (Fin 100)))"

text \<open>
  The function mapped over the holdings in \<^verbatim>\<open>rows\<close>. The lookup \<^verbatim>\<open>prices[h.symbol]\<close>
  is \<^verbatim>\<open>undefined\<close> for a symbol that is no key, and then \<^verbatim>\<open>p?.price ?? 0\<close> is \<open>0\<close>.
\<close>

definition row :: "PriceMap \<Rightarrow> Holding \<Rightarrow> Row" where
  "row ps h =
     (let p = map_of ps (symbol_h h);
          pn = (case p of None \<Rightarrow> Fin 0 | Some q \<Rightarrow> price q);
          ch = (case p of None \<Rightarrow> Fin 0 | Some q \<Rightarrow> change24hPct q);
          py = priceYesterday pn ch;
          vn = js_mul (amount h) pn;
          valueYesterday = js_mul (amount h) py;
          vc = js_sub vn valueYesterday
      in \<lparr>id_h = id_h h, symbol_h = symbol_h h, name_h = name_h h, amount = amount h,
          priceNow = pn, change24hPct_r = ch, valueNow = vn, valueChange = vc\<rparr>)"

definition rows :: "Holding list \<Rightarrow> PriceMap \<Rightarrow> Row list" where
  "rows hs ps = map (row ps) hs"

definition totalBalance :: "Row list \<Rightarrow> number" where
  "totalBalance rs = foldl (\<lambda>sum r. js_add sum (valueNow r)) (Fin 0) rs"

definition dayChangeAmount :: "Row list \<Rightarrow> number" where
  "dayChangeAmount rs = foldl (\<lambda>sum r. js_add sum (valueChange r)) (Fin 0) rs"

text \<open>The local constant \<^verbatim>\<open>yesterday\<close> of \<^verbatim>\<open>dayChangePct\<close>.\<close>

definition yesterday :: "Row list \<Rightarrow> number" where
  "yesterday rs =
     foldl (\<lambda>sum r. js_add sum (js_mul (amount r) (priceYesterday (priceNow r) (change24hPct_r r))))
       (Fin 0) rs"

text \<open>\<^verbatim>\<open>dayChangePct\<close> depends on the rows and on the total balance.\<close>

definition dayChangePct :: "Row list \<Rightarrow> number \<Rightarrow> number" where
  "dayChangePct rs tb =
     (if js_le (yesterday rs) (Fin 0) then Fin 0
      else js_mul (js_div (js_sub tb (yesterday rs)) (yesterday rs)) (Fin 100))"

text \<open>
  The number that the day-change marker passes to \<^verbatim>\<open>formatPct\<close>, for a list of holdings
  and a price snapshot.
\<close>

definition dayChangeShown :: "Holding list \<Rightarrow> PriceMap \<Rightarrow> number" where
  "dayChangeShown hs ps =
     clamp (dayChangePct (rows hs ps) (totalBalance (rows hs ps))) (Fin (- 99)) (Fin 999)"

text \<open>The \<^verbatim>\<open>disabled\<close> attribute of the two buttons that call the refresh handler.\<close>

definition refresh_prices_disabled :: "View \<Rightarrow> bool" where
  "refresh_prices_disabled v = loadingPrices v"

definition mini_refresh_disabled :: "View \<Rightarrow> bool" where
  "mini_refresh_disabled v = loadingPrices v"

text \<open>
  \<^verbatim>\<open>handleRefreshPrices\<close> is suspended once, at its \<^verbatim>\<open>await\<close>. The part before it sets the
  flag; the part after it receives what the awaited call gave, the error thrown or the
  map returned, and returns the error it rethrows, if any, with the new state.
\<close>

definition handleRefreshPrices_call :: "View \<Rightarrow> View" where
  "handleRefreshPrices_call v = v\<lparr>loadingPrices := True\<rparr>"

definition handleRefreshPrices_resume :: "js_error + PriceMap \<Rightarrow> View \<Rightarrow> (js_error + unit) \<times> View" where
  "handleRefreshPrices_resume res v =
     (case res of
        Inl e \<Rightarrow> (Inl e, v\<lparr>loadingPrices := False\<rparr>)
      | Inr nxt \<Rightarrow> (Inr (), v\<lparr>prices := nxt, loadingPrices := False\<rparr>))"

text \<open>
  One whole run of the handler with nothing else in between, for an awaited operation
  \<open>advance\<close> on the store \<open>st\<close>: the state shown while the handler is suspended, the
  outcome, the store and the state at the end.
\<close>

definition handleRefreshPrices ::
  "(PriceMap \<Rightarrow> js_error + (PriceMap \<times> PriceMap)) \<Rightarrow> PriceMap \<Rightarrow> View
     \<Rightarrow> View \<times> (js_error + unit) \<times> PriceMap \<times> View" where
  "handleRefreshPrices advance st v =
     (let busy = handleRefreshPrices_call v
      in case advance st of
           Inl e \<Rightarrow>
             (case handleRefreshPrices_resume (Inl e) busy of (out, v') \<Rightarrow> (busy, out, st, v'))
         | Inr (nxt, st') \<Rightarrow>
             (case handleRefreshPrices_resume (Inr nxt) busy of (out, v') \<Rightarrow> (busy, out, st', v')))"

section \<open>The memo cells of the dashboard\<close>

text \<open>
  The component derives its rows and aggregates through \<^verbatim>\<open>useMemo\<close>, which keeps state
  between two renders: a cell with the dependencies and the value of the last computation.
  \<^verbatim>\<open>useMemo(factory, deps)\<close> returns the value of the cell when the dependencies are the
  ones of the cell, and computes the value and fills the cell otherwise. The first argument
  of the model is the value that the factory computes in this render. React compares the
  dependencies with \<^verbatim>\<open>Object.is\<close>, objects by their identity: \<open>same\<close> says whether it finds
  them identical to the ones of the cell. Identical dependencies have equal values, since
  the component never changes an object it has stored; dependencies of equal values need
  not be identical.
\<close>

definition useMemo :: "'v \<Rightarrow> 'd \<Rightarrow> bool \<Rightarrow> ('d \<times> 'v) option \<Rightarrow> 'v \<times> ('d \<times> 'v) option" where
  "useMemo v deps same cell =
     (case cell of
        None \<Rightarrow> (v, Some (deps, v))
      | Some (d, old) \<Rightarrow> if same \<and> d = deps then (old, cell) else (v, Some (deps, v)))"

text \<open>The five cells of the component, in the order of its \<^verbatim>\<open>useMemo\<close> calls.\<close>

record Cells =
  holdings_cell :: "(unit \<times> Holding list) option"
  rows_cell :: "((Holding list \<times> PriceMap) \<times> Row list) option"
  totalBalance_cell :: "(Row list \<times> number) option"
  dayChangeAmount_cell :: "(Row list \<times> number) option"
  dayChangePct_cell :: "((Row list \<times> number) \<times> number) option"

text \<open>For one render, what the comparison of the dependencies of each cell finds.\<close>

record Identical =
  holdings_same :: bool
  rows_same :: bool
  totalBalance_same :: bool
  dayChangeAmount_same :: bool
  dayChangePct_same :: bool

text \<open>The cells before the first render.\<close>

definition no_cells :: Cells where
  "no_cells =
     \<lparr>holdings_cell = None, rows_cell = None, totalBalance_cell = None,
      dayChangeAmount_cell = None, dayChangePct_cell = None\<rparr>"

text \<open>What a render derives.\<close>

record Derived =
  the_rows :: "Row list"
  the_totalBalance :: number
  the_dayChangeAmount :: number
  the_dayChangePct :: number

text \<open>
  One render of the component: the derivations of \<^verbatim>\<open>DashboardPage\<close> in their order, each
  with its dependency array, for the state \<open>v\<close> of the component, the outcome \<open>s\<close> of the
  comparisons and the cells that the render before has left.
\<close>

definition render :: "View \<Rightarrow> Identical \<Rightarrow> Cells \<Rightarrow> Derived \<times> Cells" where
  "render v s c =
     (let (hs, c1) = useMemo holdings () (holdings_same s) (holdings_cell c);
          (rs, c2) = useMemo (rows hs (prices v)) (hs, prices v) (rows_same s) (rows_cell c);
          (tb, c3) = useMemo (totalBalance rs) rs (totalBalance_same s) (totalBalance_cell c);
          (dca, c4) = useMemo (dayChangeAmount rs) rs (dayChangeAmount_same s)
                        (dayChangeAmount_cell c);
          (pct, c5) = useMemo (dayChangePct rs tb) (rs, tb) (dayChangePct_same s)
                        (dayChangePct_cell c)
      in (\<lparr>the_rows = rs, the_totalBalance = tb, the_dayChangeAmount = dca,
           the_dayChangePct = pct\<rparr>,
          \<lparr>holdings_cell = c1, rows_cell = c2, totalBalance_cell = c3,
           dayChangeAmount_cell = c4, dayChangePct_cell = c5\<rparr>))"

text \<open>
  The cells after a sequence of renders, one for each state of the list, each with the
  outcome of its comparisons.
\<close>

fun renders :: "(View \<times> Identical) list \<Rightarrow> Cells \<Rightarrow> Cells" where
  "renders [] c = c"
| "renders ((v, s) # vs) c = renders vs (snd (render v s c))"

section \<open>Random sources\<close>

text \<open>A random source that gives the same value at every call.\<close>

definition always :: "real \<Rightarrow> nat \<Rightarrow> real" where
  "always u n = u"

section \<open>Definitions used to state and to prove the properties\<close>

text \<open>The sum of a list of numbers, summed from the right.\<close>

fun sum_n :: "number list \<Rightarrow> number" where
  "sum_n [] = Fin 0"
| "sum_n (x # xs) = js_add x (sum_n xs)"

text \<open>A holding whose symbol is no key of the seeded store.\<close>

definition doge :: Holding where
  "doge = \<lparr>id_h = ''doge'', symbol_h = ''DOGE'', name_h = ''Dogecoin'', amount = Fin 1000\<rparr>"

text \<open>The first of the mocked holdings and a price map that has its symbol only.\<close>

definition btc :: Holding where
  "btc = \<lparr>id_h = ''btc'', symbol_h = ''BTC'', name_h = ''Bitcoin'', amount = Fin (523 / 10000)\<rparr>"

definition btc_prices :: PriceMap where
  "btc_prices = [(''BTC'', \<lparr>symbol = ''BTC'', price = Fin 1185000, change24hPct = Fin (142 / 100)\<rparr>)]"

text \<open>\<open>approx x y tol\<close>: the number \<open>x\<close> is finite and within \<open>tol\<close> of \<open>y\<close>.\<close>

definition approx :: "number \<Rightarrow> real \<Rightarrow> real \<Rightarrow> bool" where
  "approx x y tol = (case x of Fin a \<Rightarrow> \<bar>a - y\<bar> \<le> tol | _ \<Rightarrow> False)"

text \<open>The seeded store after the 24h change of BTC has walked down to -100.\<close>

definition crash_prices :: PriceMap where
  "crash_prices =
    [(''BTC'', \<lparr>symbol = ''BTC'', price = Fin 1185000, change24hPct = Fin (- 100)\<rparr>),
     (''ETH'', \<lparr>symbol = ''ETH'', price = Fin 62450, change24hPct = Fin (- 85 / 100)\<rparr>),
     (''SOL'', \<lparr>symbol = ''SOL'', price = Fin 3250, change24hPct = Fin (312 / 100)\<rparr>),
     (''XRP'', \<lparr>symbol = ''XRP'', price = Fin (118 / 10), change24hPct = Fin (24 / 100)\<rparr>)]"

text \<open>A price map whose only price point has a 24h change of 1900.\<close>

definition btc_surge :: PriceMap where
  "btc_surge = [(''BTC'', \<lparr>symbol = ''BTC'', price = Fin 1185000, change24hPct = Fin 1900\<rparr>)]"

text \<open>The interval of the clamp in the day-change marker.\<close>

definition in_range :: "number \<Rightarrow> bool" where
  "in_range n = (js_le (Fin (- 99)) n \<and> js_le n (Fin 999))"

text \<open>The price point that the walk makes of a price point, for the two values read from the random source.\<close>

definition perturb :: "real \<Rightarrow> real \<Rightarrow> string \<Rightarrow> PricePoint \<Rightarrow> PricePoint" where
  "perturb u1 u2 k cur =
     \<lparr>symbol = k,
      price = round2 (overflow (js_mul (price cur)
                (js_add (Fin 1) (js_div (Fin (24 / 10 * u1 - 12 / 10)) (Fin 100))))),
      change24hPct = round2 (js_add (change24hPct cur) (Fin (12 / 10 * u2 - 6 / 10)))\<rparr>"

text \<open>
  The map that the walk makes of a list of entries, reading the source from position \<open>i\<close>:
  an entry with the key \<^verbatim>\<open>__proto__\<close> uses its two values of the source and gives no entry.
\<close>

fun walk :: "(nat \<Rightarrow> real) \<Rightarrow> nat \<Rightarrow> PriceMap \<Rightarrow> PriceMap" where
  "walk rnd i [] = []"
| "walk rnd i ((k, cur) # es) =
     (if k = ''__proto__'' then walk rnd (i + 2) es
      else (k, perturb (rnd i) (rnd (i + 1)) k cur) # walk rnd (i + 2) es)"

text \<open>A run of calls of \<^verbatim>\<open>refreshMockPrices\<close>, one random source for each call; the result is the last store.\<close>

fun advances :: "(nat \<Rightarrow> real) list \<Rightarrow> PriceMap \<Rightarrow> js_error + PriceMap" where
  "advances [] st = Inr st"
| "advances (rnd # rnds) st =
     (case refreshMockPrices rnd st of
        Inl e \<Rightarrow> Inl e
      | Inr (r, st') \<Rightarrow> advances rnds st')"




text \<open>A price map with an own key \<^verbatim>\<open>__proto__\<close>.\<close>

definition proto_prices :: PriceMap where
  "proto_prices =
    [(''BTC'', \<lparr>symbol = ''BTC'', price = Fin 1185000, change24hPct = Fin (142 / 100)\<rparr>),
     (''__proto__'', \<lparr>symbol = ''__proto__'', price = Fin 100, change24hPct = Fin 0\<rparr>)]"



text \<open>An awaited operation that throws.\<close>

definition failing :: "PriceMap \<Rightarrow> js_error + (PriceMap \<times> PriceMap)" where
  "failing st = Inl TypeError"

text \<open>The state of the component after it has read the seeded store.\<close>

definition idle :: View where
  "idle = \<lparr>currency = ZAR, prices = state, loadingPrices = False\<rparr>"

text \<open>What a render derives from a price snapshot when no cell keeps an older value.\<close>

definition derived :: "PriceMap \<Rightarrow> Derived" where
  "derived ps =
     \<lparr>the_rows = rows holdings ps,
      the_totalBalance = totalBalance (rows holdings ps),
      the_dayChangeAmount = dayChangeAmount (rows holdings ps),
      the_dayChangePct = dayChangePct (rows holdings ps) (totalBalance (rows holdings ps))\<rparr>"

text \<open>The cells that a render of a price snapshot leaves.\<close>

definition cells_of :: "PriceMap \<Rightarrow> Cells" where
  "cells_of ps =
     \<lparr>holdings_cell = Some ((), holdings),
      rows_cell = Some ((holdings, ps), rows holdings ps),
      totalBalance_cell = Some (rows holdings ps, totalBalance (rows holdings ps)),
      dayChangeAmount_cell = Some (rows holdings ps, dayChangeAmount (rows holdings ps)),
      dayChangePct_cell =
        Some ((rows holdings ps, totalBalance (rows holdings ps)),
              dayChangePct (rows holdings ps) (totalBalance (rows holdings ps)))\<rparr>"

text \<open>Every filled cell keeps the value that its factory computes of its dependencies.\<close>

definition cells_kept :: "Cells \<Rightarrow> bool" where
  "cells_kept c \<longleftrightarrow>
     (\<forall>d hs. holdings_cell c = Some (d, hs) \<longrightarrow> hs = holdings) \<and>
     (\<forall>d rs. rows_cell c = Some (d, rs) \<longrightarrow> rs = (case d of (hs, ps) \<Rightarrow> rows hs ps)) \<and>
     (\<forall>rs t. totalBalance_cell c = Some (rs, t) \<longrightarrow> t = totalBalance rs) \<and>
     (\<forall>rs t. dayChangeAmount_cell c = Some (rs, t) \<longrightarrow> t = dayChangeAmount rs) \<and>
     (\<forall>d p. dayChangePct_cell c = Some (d, p) \<longrightarrow> p = (case d of (rs, tb) \<Rightarrow> dayChangePct rs tb))"

text \<open>The state of the component at its first render, and a state during a refresh.\<close>

definition first_view :: View where
  "first_view = \<lparr>currency = ZAR, prices = [], loadingPrices = False\<rparr>"

definition reloading :: View where
  "reloading = \<lparr>currency = ZAR, prices = rev state, loadingPrices = True\<rparr>"

text \<open>Comparisons that find every dependency identical, and comparisons that find none.\<close>

definition all_same :: Identical where
  "all_same =
     \<lparr>holdings_same = True, rows_same = True, totalBalance_same = True,
      dayChangeAmount_same = True, dayChangePct_same = True\<rparr>"

definition none_same :: Identical where
  "none_same =
     \<lparr>holdings_same = False, rows_same = False, totalBalance_same = False,
      dayChangeAmount_same = False, dayChangePct_same = False\<rparr>"

section \<open>Arithmetic of numbers\<close>

lemma js_add_assoc: "js_add (js_add a b) c = js_add a (js_add b c)"
  by (cases a; cases b; cases c) simp_all

lemma js_add_zero_left: "js_add (Fin 0) a = a"
  by (cases a) simp_all

lemma js_add_zero_right: "js_add a (Fin 0) = a"
  by (cases a) simp_all

lemma is_finite_js_add: "is_finite (js_add a b) \<longleftrightarrow> is_finite a \<and> is_finite b"
  by (cases a; cases b) simp_all

lemma is_finite_js_neg: "is_finite (js_neg a) \<longleftrightarrow> is_finite a"
  by (cases a) simp_all

lemma is_finite_js_sub: "is_finite (js_sub a b) \<longleftrightarrow> is_finite a \<and> is_finite b"
  by (simp add: js_sub_def is_finite_js_add is_finite_js_neg)

lemma not_finite_js_mul: "\<not> is_finite b \<Longrightarrow> \<not> is_finite (js_mul a b)"
  by (cases a; cases b) (simp_all add: inf_of_sign_def)

lemma foldl_js_add: "foldl (\<lambda>s r. js_add s (f r)) a rs = js_add a (sum_n (map f rs))"
  by (induction rs arbitrary: a) (simp_all add: js_add_zero_right js_add_assoc)

lemma foldl_js_add_zero: "foldl (\<lambda>s r. js_add s (f r)) (Fin 0) rs = sum_n (map f rs)"
  by (simp add: foldl_js_add js_add_zero_left)

lemma is_finite_sum_n: "is_finite (sum_n xs) \<longleftrightarrow> (\<forall>x\<in>set xs. is_finite x)"
  by (induction xs) (simp_all add: is_finite_js_add)

lemma double_limit_large: "10 ^ 16 < double_limit"
  by (simp add: double_limit_def)

lemma overflow_small: "\<bar>a\<bar> \<le> 10 ^ 16 \<Longrightarrow> overflow (Fin a) = Fin a"
  using double_limit_large by (simp add: overflow_def abs_le_iff)

section \<open>Rows\<close>

lemma row_fields:
  "priceNow (row ps h) = (case map_of ps (symbol_h h) of None \<Rightarrow> Fin 0 | Some q \<Rightarrow> price q)"
  "change24hPct_r (row ps h) =
     (case map_of ps (symbol_h h) of None \<Rightarrow> Fin 0 | Some q \<Rightarrow> change24hPct q)"
  "valueNow (row ps h) = js_mul (amount h) (priceNow (row ps h))"
  "valueChange (row ps h) =
     js_sub (valueNow (row ps h))
       (js_mul (amount h) (priceYesterday (priceNow (row ps h)) (change24hPct_r (row ps h))))"
  "amount (row ps h) = amount h"
  "symbol_h (row ps h) = symbol_h h"
  "id_h (row ps h) = id_h h"
  "name_h (row ps h) = name_h h"
  by (simp_all add: row_def Let_def)

lemma rows_nth: "i < length hs \<Longrightarrow> rows hs ps ! i = row ps (hs ! i)"
  by (simp add: rows_def)

text \<open>
  Claim C2. Each holding gives one row, in the order of the holdings. The row has the
  price and the 24h change of the holding's symbol in the snapshot, and \<open>0\<close> for both when
  the symbol is no key of the snapshot; its value is the amount times the price, and its
  value change is the value minus the amount times
  \<open>priceNow / (1 + change24hPct / 100)\<close>. No holding fails to give a row.
\<close>

theorem rows_derivation:
  "length (rows hs ps) = length hs \<and>
   (\<forall>i < length hs.
      let h = hs ! i; r = rows hs ps ! i
      in priceNow r = (case map_of ps (symbol_h h) of Some q \<Rightarrow> price q | None \<Rightarrow> Fin 0) \<and>
         change24hPct_r r =
           (case map_of ps (symbol_h h) of Some q \<Rightarrow> change24hPct q | None \<Rightarrow> Fin 0) \<and>
         valueNow r = js_mul (amount h) (priceNow r) \<and>
         valueChange r =
           js_sub (valueNow r)
             (js_mul (amount h)
                (js_div (priceNow r) (js_add (Fin 1) (js_div (change24hPct_r r) (Fin 100))))) \<and>
         (symbol_h h \<notin> set (Object_keys ps) \<longrightarrow> priceNow r = Fin 0 \<and> change24hPct_r r = Fin 0) \<and>
         id_h r = id_h h \<and> symbol_h r = symbol_h h \<and> name_h r = name_h h \<and> amount r = amount h)"
proof -
  have len: "length (rows hs ps) = length hs"
    by (simp add: rows_def)
  have missing: "map_of ps k = None" if "k \<notin> set (Object_keys ps)" for k
    using that by (simp add: Object_keys_def map_of_eq_None_iff)
  show ?thesis
    using len
    by (simp add: rows_nth Let_def row_fields priceYesterday_def missing split: option.splits)
qed

theorem rows_derivation_witness:
  "length (rows (doge # holdings) state) = 5 \<and>
   priceNow (rows (doge # holdings) state ! 0) = Fin 0 \<and>
   change24hPct_r (rows (doge # holdings) state ! 0) = Fin 0 \<and>
   valueNow (rows (doge # holdings) state ! 0) = Fin 0 \<and>
   valueChange (rows (doge # holdings) state ! 0) = Fin 0 \<and>
   priceNow (rows (doge # holdings) state ! 4) = Fin (118 / 10) \<and>
   change24hPct_r (rows (doge # holdings) state ! 4) = Fin (24 / 100) \<and>
   valueNow (rows (doge # holdings) state ! 4) = Fin 6844"
proof -
  note T = rows_derivation [of "doge # holdings" state]
  have len: "length (doge # holdings) = 5"
    by (simp add: holdings_def)
  have h0: "(doge # holdings) ! 0 = doge"
    by simp
  have h4: "(doge # holdings) ! 4 =
      \<lparr>id_h = ''xrp'', symbol_h = ''XRP'', name_h = ''XRP'', amount = Fin 580\<rparr>"
    by (simp add: holdings_def)
  have r0: "priceNow (rows (doge # holdings) state ! 0) = Fin 0 \<and>
      change24hPct_r (rows (doge # holdings) state ! 0) = Fin 0 \<and>
      valueNow (rows (doge # holdings) state ! 0) = Fin 0 \<and>
      valueChange (rows (doge # holdings) state ! 0) = Fin 0"
    using T [THEN conjunct2, rule_format, of 0] unfolding len h0 Let_def
    by (simp add: doge_def state_def js_sub_def)
  have r4: "priceNow (rows (doge # holdings) state ! 4) = Fin (118 / 10) \<and>
      change24hPct_r (rows (doge # holdings) state ! 4) = Fin (24 / 100) \<and>
      valueNow (rows (doge # holdings) state ! 4) = Fin 6844"
    using T [THEN conjunct2, rule_format, of 4] unfolding len h4 Let_def
    by (simp add: state_def)
  from T len r0 r4 show ?thesis
    by simp
qed

section \<open>Aggregates\<close>

lemma row_empty_prices:
  assumes "is_finite (amount h)"
  shows "valueNow (row [] h) = Fin 0" "valueChange (row [] h) = Fin 0"
    "js_mul (amount (row [] h)) (priceYesterday (priceNow (row [] h)) (change24hPct_r (row [] h))) = Fin 0"
  using assms by (cases "amount h"; simp add: row_def Let_def priceYesterday_def js_sub_def)+

lemma sum_n_zero: "(\<forall>x\<in>set xs. x = Fin 0) \<Longrightarrow> sum_n xs = Fin 0"
  by (induction xs) simp_all

lemma aggregates_empty_prices:
  assumes "\<forall>h\<in>set hs. is_finite (amount h)"
  shows "totalBalance (rows hs []) = Fin 0" "dayChangeAmount (rows hs []) = Fin 0"
    "yesterday (rows hs []) = Fin 0"
  using assms
  by (simp_all add: totalBalance_def dayChangeAmount_def yesterday_def foldl_js_add_zero
      rows_def sum_n_zero row_empty_prices)

text \<open>
  Claim C3. The total balance is the sum of the rows' values, the day change amount the
  sum of their value changes, and the yesterday total the sum of amount times
  \<open>priceNow / (1 + change24hPct / 100)\<close>. The day change percentage is \<open>0\<close> when the
  yesterday total is at most \<open>0\<close>, and the relative difference times \<open>100\<close> otherwise.
  With the empty price map and holdings of finite amounts, all three aggregates are \<open>0\<close>.
\<close>

theorem portfolio_aggregates:
  "totalBalance (rows hs ps) = sum_n (map valueNow (rows hs ps)) \<and>
   dayChangeAmount (rows hs ps) = sum_n (map valueChange (rows hs ps)) \<and>
   yesterday (rows hs ps) =
     sum_n (map (\<lambda>r. js_mul (amount r)
                  (js_div (priceNow r) (js_add (Fin 1) (js_div (change24hPct_r r) (Fin 100)))))
            (rows hs ps)) \<and>
   dayChangePct (rows hs ps) (totalBalance (rows hs ps)) =
     (if js_le (yesterday (rows hs ps)) (Fin 0) then Fin 0
      else js_mul (js_div (js_sub (totalBalance (rows hs ps)) (yesterday (rows hs ps)))
                     (yesterday (rows hs ps))) (Fin 100)) \<and>
   ((\<forall>h\<in>set hs. is_finite (amount h)) \<longrightarrow>
      totalBalance (rows hs []) = Fin 0 \<and> dayChangeAmount (rows hs []) = Fin 0 \<and>
      dayChangePct (rows hs []) (totalBalance (rows hs [])) = Fin 0)"
proof -
  have a: "totalBalance (rows hs ps) = sum_n (map valueNow (rows hs ps))"
    by (simp add: totalBalance_def foldl_js_add_zero)
  have b: "dayChangeAmount (rows hs ps) = sum_n (map valueChange (rows hs ps))"
    by (simp add: dayChangeAmount_def foldl_js_add_zero)
  have c: "yesterday (rows hs ps) =
     sum_n (map (\<lambda>r. js_mul (amount r)
                  (js_div (priceNow r) (js_add (Fin 1) (js_div (change24hPct_r r) (Fin 100)))))
            (rows hs ps))"
    by (simp add: yesterday_def foldl_js_add_zero priceYesterday_def)
  have d: "dayChangePct (rows hs ps) (totalBalance (rows hs ps)) =
     (if js_le (yesterday (rows hs ps)) (Fin 0) then Fin 0
      else js_mul (js_div (js_sub (totalBalance (rows hs ps)) (yesterday (rows hs ps)))
                     (yesterday (rows hs ps))) (Fin 100))"
    by (simp add: dayChangePct_def)
  have e: "totalBalance (rows hs []) = Fin 0 \<and> dayChangeAmount (rows hs []) = Fin 0 \<and>
      dayChangePct (rows hs []) (totalBalance (rows hs [])) = Fin 0"
    if "\<forall>h\<in>set hs. is_finite (amount h)"
    using aggregates_empty_prices [OF that] by (simp add: dayChangePct_def)
  from a b c d e show ?thesis
    by blast
qed

lemma seed_rows_values:
  "map valueNow (rows holdings state) = [Fin (123951 / 2), Fin 52458, Fin 40300, Fin 6844]"
  by (simp add: rows_def holdings_def state_def row_def Let_def)

theorem portfolio_aggregates_witness:
  "totalBalance (rows holdings state) = Fin (323155 / 2) \<and>
   \<not> js_le (yesterday (rows holdings state)) (Fin 0) \<and>
   list_all (\<lambda>h. is_finite (amount h)) holdings \<and>
   totalBalance (rows holdings []) = Fin 0 \<and> dayChangeAmount (rows holdings []) = Fin 0 \<and>
   dayChangePct (rows holdings []) (totalBalance (rows holdings [])) = Fin 0"
proof -
  have fin: "\<forall>h\<in>set holdings. is_finite (amount h)"
    by (simp add: holdings_def)
  have y: "\<not> js_le (yesterday (rows holdings state)) (Fin 0)"
    by (simp add: yesterday_def rows_def holdings_def state_def row_def Let_def priceYesterday_def)
  have t: "totalBalance (rows holdings state) = Fin (323155 / 2)"
    using portfolio_aggregates [of holdings state] by (simp add: seed_rows_values)
  from fin have la: "list_all (\<lambda>h. is_finite (amount h)) holdings"
    by (simp only: list_all_iff)
  from fin la y t portfolio_aggregates [of holdings "[]"] show ?thesis
    by blast
qed

section \<open>A worked row\<close>

lemma btc_row:
  "priceNow (row btc_prices btc) = Fin 1185000"
  "change24hPct_r (row btc_prices btc) = Fin (142 / 100)"
  "valueNow (row btc_prices btc) = Fin (123951 / 2)"
  "valueChange (row btc_prices btc) = Fin (8800521 / 10142)"
  by (simp_all add: row_def Let_def btc_def btc_prices_def priceYesterday_def js_sub_def)

text \<open>
  Claim C4, as amended. For the single holding of \<open>0.0523\<close> BTC and the price point with
  price \<open>1185000\<close> and 24h change \<open>1.42\<close>, the row has \<open>valueNow = 61975.50\<close>, the price of
  yesterday is \<open>1168408.6\<close> to one decimal and \<open>valueChange\<close> is \<open>867.73\<close> to two decimals.
\<close>

theorem btc_row_values:
  "valueNow (row btc_prices btc) = Fin (6197550 / 100) \<and>
   approx (priceYesterday (priceNow (row btc_prices btc))
             (change24hPct_r (row btc_prices btc)))
     (11684086 / 10) (5 / 100) \<and>
   approx (valueChange (row btc_prices btc)) (86773 / 100) (5 / 1000)"
  by (simp add: btc_row approx_def priceYesterday_def)

text \<open>
  The values \<open>61990.50\<close>, \<open>1168401.7\<close> and \<open>864.86\<close> are not the ones of the row: the value
  differs from the first, and the other two are off by more than \<open>6\<close> and by more than \<open>2\<close>.
\<close>

theorem btc_row_values_counterexample:
  "valueNow (row btc_prices btc) \<noteq> Fin (6199050 / 100) \<and>
   \<not> approx (priceYesterday (priceNow (row btc_prices btc))
             (change24hPct_r (row btc_prices btc)))
     (11684017 / 10) 6 \<and>
   \<not> approx (valueChange (row btc_prices btc)) (86486 / 100) 2"
  by (simp add: btc_row approx_def priceYesterday_def)

section \<open>The division by zero\<close>

lemma priceYesterday_singular:
  "x \<noteq> 0 \<Longrightarrow> priceYesterday (Fin x) (Fin (- 100)) = (if 0 < x then PInf else NInf)"
  by (simp add: priceYesterday_def inf_of_sign_def)

lemma not_finite_yesterday:
  assumes "r \<in> set rs"
    and "\<not> is_finite (js_mul (amount r) (priceYesterday (priceNow r) (change24hPct_r r)))"
  shows "\<not> is_finite (yesterday rs)"
  using assms by (auto simp add: yesterday_def foldl_js_add_zero is_finite_sum_n)

lemma times_infinity:
  assumes "a \<noteq> 0" and "x \<noteq> 0"
  shows "js_mul (Fin a) (if 0 < x then PInf else NInf) = (if 0 < a * x then PInf else NInf)"
  using assms by (auto simp add: inf_of_sign_def zero_less_mult_iff)

lemma minus_infinity:
  "js_sub (Fin v) (if 0 < (s::real) then PInf else NInf) = (if 0 < s then NInf else PInf)"
  by (simp add: js_sub_def)

text \<open>
  Claim C7. For a holding whose symbol has a price point with 24h change \<open>-100\<close> and a
  non-zero finite price, the divisor \<open>1 + change24hPct / 100\<close> is zero and nothing guards
  the division: the price of yesterday is \<open>Infinity\<close> for a positive price and \<open>-Infinity\<close>
  for a negative one, and neither the value change of the row nor the yesterday total of
  any holdings list with this holding is a finite number. For a non-zero finite amount
  whose value is in the range of doubles, the value change of the row is the infinity of
  the sign opposite to the value, and for the holding alone the yesterday total is the
  infinity of the sign of the value and the day change percentage is \<open>NaN\<close> for a positive
  value and \<open>0\<close> for a negative one.
\<close>

theorem division_by_zero_unguarded:
  assumes "h \<in> set hs" and "map_of ps (symbol_h h) = Some q"
    and "change24hPct q = Fin (- 100)" and "price q = Fin x" and "x \<noteq> 0"
  shows "js_add (Fin 1) (js_div (change24hPct_r (row ps h)) (Fin 100)) = Fin 0 \<and>
    priceYesterday (priceNow (row ps h)) (change24hPct_r (row ps h)) =
      (if 0 < x then PInf else NInf) \<and>
    \<not> is_finite (valueChange (row ps h)) \<and>
    \<not> is_finite (yesterday (rows hs ps)) \<and>
    (\<forall>a. amount h = Fin a \<and> a \<noteq> 0 \<and> \<bar>a * x\<bar> < double_limit \<longrightarrow>
       valueChange (row ps h) = (if 0 < a * x then NInf else PInf) \<and>
       yesterday (rows [h] ps) = (if 0 < a * x then PInf else NInf) \<and>
       dayChangePct (rows [h] ps) (totalBalance (rows [h] ps)) =
         (if 0 < a * x then NaN else Fin 0))"
proof -
  have pn: "priceNow (row ps h) = Fin x" and ch: "change24hPct_r (row ps h) = Fin (- 100)"
    using assms by (simp_all add: row_fields)
  have zero: "js_add (Fin 1) (js_div (change24hPct_r (row ps h)) (Fin 100)) = Fin 0"
    by (simp add: ch)
  have py: "priceYesterday (priceNow (row ps h)) (change24hPct_r (row ps h)) =
      (if 0 < x then PInf else NInf)"
    using \<open>x \<noteq> 0\<close> by (simp add: pn ch priceYesterday_singular)
  then have nf: "\<not> is_finite (priceYesterday (priceNow (row ps h)) (change24hPct_r (row ps h)))"
    by simp
  have vy: "\<not> is_finite (js_mul (amount h)
      (priceYesterday (priceNow (row ps h)) (change24hPct_r (row ps h))))"
    using nf by (rule not_finite_js_mul)
  have vc: "\<not> is_finite (valueChange (row ps h))"
    using vy by (simp add: row_fields(4) is_finite_js_sub)
  have "row ps h \<in> set (rows hs ps)"
    using \<open>h \<in> set hs\<close> by (simp add: rows_def)
  moreover have "\<not> is_finite (js_mul (amount (row ps h))
      (priceYesterday (priceNow (row ps h)) (change24hPct_r (row ps h))))"
    using vy by (simp add: row_fields(5))
  ultimately have y: "\<not> is_finite (yesterday (rows hs ps))"
    by (rule not_finite_yesterday)
  have exact: "valueChange (row ps h) = (if 0 < a * x then NInf else PInf) \<and>
       yesterday (rows [h] ps) = (if 0 < a * x then PInf else NInf) \<and>
       dayChangePct (rows [h] ps) (totalBalance (rows [h] ps)) =
         (if 0 < a * x then NaN else Fin 0)"
    if "amount h = Fin a \<and> a \<noteq> 0 \<and> \<bar>a * x\<bar> < double_limit" for a
  proof -
    from that have am: "amount h = Fin a" and a: "a \<noteq> 0"
      by simp_all
    have vn: "valueNow (row ps h) = Fin (a * x)"
      by (simp add: row_fields(3) pn am)
    have vyest: "js_mul (amount h) (priceYesterday (priceNow (row ps h)) (change24hPct_r (row ps h))) =
        (if 0 < a * x then PInf else NInf)"
      unfolding py am using a \<open>x \<noteq> 0\<close> by (rule times_infinity)
    have one: "valueChange (row ps h) = (if 0 < a * x then NInf else PInf)"
      unfolding row_fields(4) vyest vn by (rule minus_infinity)
    have two: "yesterday (rows [h] ps) = (if 0 < a * x then PInf else NInf)"
      using vyest by (simp add: yesterday_def rows_def row_fields(5) js_add_zero_left)
    have tb: "totalBalance (rows [h] ps) = Fin (a * x)"
      by (simp add: totalBalance_def rows_def vn)
    have three: "dayChangePct (rows [h] ps) (totalBalance (rows [h] ps)) =
         (if 0 < a * x then NaN else Fin 0)"
      by (simp add: dayChangePct_def two tb js_sub_def)
    from one two three show ?thesis
      by (intro conjI)
  qed
  from zero py vc y exact show ?thesis
    by blast
qed

theorem division_by_zero_unguarded_witness:
  "hd holdings \<in> set holdings \<and>
   map_of crash_prices (symbol_h (hd holdings)) = Some (snd (hd crash_prices)) \<and>
   change24hPct (snd (hd crash_prices)) = Fin (- 100) \<and>
   price (snd (hd crash_prices)) = Fin 1185000 \<and>
   amount (hd holdings) = Fin (523 / 10000) \<and>
   \<bar>523 / 10000 * 1185000\<bar> < double_limit \<and>
   priceYesterday (priceNow (row crash_prices (hd holdings)))
     (change24hPct_r (row crash_prices (hd holdings))) = PInf \<and>
   valueChange (row crash_prices (hd holdings)) = NInf \<and>
   yesterday (rows [hd holdings] crash_prices) = PInf \<and>
   dayChangePct (rows [hd holdings] crash_prices) (totalBalance (rows [hd holdings] crash_prices)) =
     NaN \<and>
   \<not> is_finite (yesterday (rows holdings crash_prices))"
proof -
  have a: "hd holdings \<in> set holdings"
    by (simp add: holdings_def)
  have b: "map_of crash_prices (symbol_h (hd holdings)) = Some (snd (hd crash_prices))"
    by (simp add: holdings_def crash_prices_def)
  have c: "change24hPct (snd (hd crash_prices)) = Fin (- 100)"
    by (simp add: crash_prices_def)
  have d: "price (snd (hd crash_prices)) = Fin 1185000"
    by (simp add: crash_prices_def)
  have e: "(1185000::real) \<noteq> 0"
    by simp
  have f: "amount (hd holdings) = Fin (523 / 10000)"
    by (simp add: holdings_def)
  have g: "\<bar>523 / 10000 * 1185000\<bar> < double_limit"
    using double_limit_large by simp
  have pos: "(0::real) < 523 / 10000 * 1185000" and nz: "(523 / 10000 :: real) \<noteq> 0"
    by simp_all
  note T = division_by_zero_unguarded [OF a b c d e]
  from T have py: "priceYesterday (priceNow (row crash_prices (hd holdings)))
     (change24hPct_r (row crash_prices (hd holdings))) = (if 0 < (1185000::real) then PInf else NInf)"
    by (rule conjunct2 [THEN conjunct1])
  have py': "priceYesterday (priceNow (row crash_prices (hd holdings)))
     (change24hPct_r (row crash_prices (hd holdings))) = PInf"
    unfolding py by simp
  from T have nf: "\<not> is_finite (yesterday (rows holdings crash_prices))"
    by (rule conjunct2 [THEN conjunct2, THEN conjunct2, THEN conjunct1])
  from T have "\<forall>a. amount (hd holdings) = Fin a \<and> a \<noteq> 0 \<and> \<bar>a * 1185000\<bar> < double_limit \<longrightarrow>
       valueChange (row crash_prices (hd holdings)) = (if 0 < a * 1185000 then NInf else PInf) \<and>
       yesterday (rows [hd holdings] crash_prices) = (if 0 < a * 1185000 then PInf else NInf) \<and>
       dayChangePct (rows [hd holdings] crash_prices)
           (totalBalance (rows [hd holdings] crash_prices)) =
         (if 0 < a * 1185000 then NaN else Fin 0)"
    by (rule conjunct2 [THEN conjunct2, THEN conjunct2, THEN conjunct2])
  then have "valueChange (row crash_prices (hd holdings)) =
         (if (0::real) < 523 / 10000 * 1185000 then NInf else PInf) \<and>
       yesterday (rows [hd holdings] crash_prices) =
         (if (0::real) < 523 / 10000 * 1185000 then PInf else NInf) \<and>
       dayChangePct (rows [hd holdings] crash_prices)
           (totalBalance (rows [hd holdings] crash_prices)) =
         (if (0::real) < 523 / 10000 * 1185000 then NaN else Fin 0)"
    using f nz g by blast
  then have ex: "valueChange (row crash_prices (hd holdings)) = NInf \<and>
       yesterday (rows [hd holdings] crash_prices) = PInf \<and>
       dayChangePct (rows [hd holdings] crash_prices)
           (totalBalance (rows [hd holdings] crash_prices)) = NaN"
    unfolding if_P [OF pos] .
  from a b c d f g py' ex nf show ?thesis
    by (intro conjI) (elim conjE, assumption)+
qed

section \<open>Determinism of the derivation\<close>

lemma row_cong: "map_of ps = map_of ps' \<Longrightarrow> row ps h = row ps' h"
  by (simp add: row_def)

lemma rows_cong: "map_of ps = map_of ps' \<Longrightarrow> rows hs ps = rows hs ps'"
  by (simp add: rows_def row_cong [of ps ps'])

lemma useMemo_kept:
  assumes "\<forall>d old. cell = Some (d, old) \<longrightarrow> old = f d"
  shows "useMemo (f deps) deps same cell = (f deps, Some (deps, f deps))"
proof (cases cell)
  case None
  then show ?thesis
    by (simp add: useMemo_def)
next
  case (Some p)
  obtain d old where p: "p = (d, old)" by (cases p)
  with Some assms have "old = f d"
    by simp
  then show ?thesis
    by (simp add: useMemo_def Some p)
qed

lemma render_kept:
  assumes "cells_kept c"
  shows "render v s c = (derived (prices v), cells_of (prices v))"
proof -
  have h: "useMemo holdings () b (holdings_cell c) = (holdings, Some ((), holdings))" for b
    using assms useMemo_kept [of "holdings_cell c" "\<lambda>d. holdings" "()" b]
    by (simp add: cells_kept_def)
  have r: "useMemo (rows holdings (prices v)) (holdings, prices v) b (rows_cell c) =
      (rows holdings (prices v), Some ((holdings, prices v), rows holdings (prices v)))" for b
    using assms useMemo_kept [of "rows_cell c" "\<lambda>(hs, ps). rows hs ps" "(holdings, prices v)" b]
    by (simp add: cells_kept_def)
  have t: "useMemo (totalBalance rs) rs b (totalBalance_cell c) =
      (totalBalance rs, Some (rs, totalBalance rs))" for rs b
    using assms useMemo_kept [of "totalBalance_cell c" totalBalance rs b]
    by (simp add: cells_kept_def)
  have a: "useMemo (dayChangeAmount rs) rs b (dayChangeAmount_cell c) =
      (dayChangeAmount rs, Some (rs, dayChangeAmount rs))" for rs b
    using assms useMemo_kept [of "dayChangeAmount_cell c" dayChangeAmount rs b]
    by (simp add: cells_kept_def)
  have p: "useMemo (dayChangePct rs tb) (rs, tb) b (dayChangePct_cell c) =
      (dayChangePct rs tb, Some ((rs, tb), dayChangePct rs tb))" for rs tb b
    using assms
      useMemo_kept [of "dayChangePct_cell c" "\<lambda>(rs, tb). dayChangePct rs tb" "(rs, tb)" b]
    by (simp add: cells_kept_def)
  show ?thesis
    by (simp add: render_def h r t a p derived_def cells_of_def)
qed

lemma cells_kept_cells_of: "cells_kept (cells_of ps)"
  by (simp add: cells_kept_def cells_of_def)

lemma cells_kept_no_cells: "cells_kept no_cells"
  by (simp add: cells_kept_def no_cells_def)

lemma cells_kept_renders: "cells_kept c \<Longrightarrow> cells_kept (renders vs c)"
  by (induction vs c rule: renders.induct) (simp_all add: render_kept cells_kept_cells_of)

lemma derived_cong: "map_of ps = map_of ps' \<Longrightarrow> derived ps = derived ps'"
  by (simp add: derived_def rows_cong [of ps ps'])

text \<open>
  Claim C8. The rows and the aggregates that a render derives are functions of the
  holdings list and of the price snapshot alone. Whatever renders have come before and
  have filled the memo cells, and whichever dependencies React finds identical, a render
  gives the rows of the mocked holdings and of the prices of its state, the total balance
  and the day change amount of these rows and the day change percentage of these rows and
  this total. So two renders whose price snapshots are equal as mappings give the same row
  fields and the same three aggregates, whatever the renders before them and whatever the
  rest of their states: the cells, the loading flag and the random source of the refreshes
  have no part in the result.
\<close>

theorem derivation_deterministic:
  "fst (render v s (renders vs no_cells)) =
     \<lparr>the_rows = rows holdings (prices v),
      the_totalBalance = totalBalance (rows holdings (prices v)),
      the_dayChangeAmount = dayChangeAmount (rows holdings (prices v)),
      the_dayChangePct =
        dayChangePct (rows holdings (prices v)) (totalBalance (rows holdings (prices v)))\<rparr> \<and>
   (map_of (prices v) = map_of (prices v') \<longrightarrow>
      fst (render v s (renders vs no_cells)) = fst (render v' s' (renders vs' no_cells)))"
proof -
  have k: "cells_kept (renders ws no_cells)" for ws
    using cells_kept_no_cells by (rule cells_kept_renders)
  have r: "fst (render w b (renders ws no_cells)) = derived (prices w)" for w b ws
    by (simp add: render_kept [OF k])
  have "fst (render v s (renders vs no_cells)) = fst (render v' s' (renders vs' no_cells))"
    if "map_of (prices v) = map_of (prices v')"
    using that by (simp add: r derived_cong [of "prices v" "prices v'"])
  then show ?thesis
    by (simp add: r derived_def)
qed

theorem derivation_deterministic_witness:
  "map_of (prices idle) = map_of (prices reloading) \<and>
   prices idle \<noteq> prices reloading \<and>
   fst (render idle all_same (renders [(first_view, none_same)] no_cells)) =
     fst (render reloading none_same (renders [] no_cells)) \<and>
   the_totalBalance (fst (render idle all_same (renders [(first_view, none_same)] no_cells))) =
     Fin (323155 / 2) \<and>
   the_totalBalance (fst (render first_view none_same no_cells)) = Fin 0"
proof -
  have d: "distinct (map fst state)"
    by (simp add: state_def)
  have m: "map_of state = map_of (rev state)"
  proof (rule map_of_inject_set [THEN iffD2])
    show "distinct (map fst state)"
      by (rule d)
    show "distinct (map fst (rev state))"
      using d by (simp only: rev_map [symmetric] distinct_rev)
    show "set state = set (rev state)"
      by (simp only: set_rev)
  qed
  then have m': "map_of (prices idle) = map_of (prices reloading)"
    by (simp add: idle_def reloading_def)
  have n: "prices idle \<noteq> prices reloading"
    by (simp add: idle_def reloading_def state_def)
  note T = derivation_deterministic
    [of idle all_same "[(first_view, none_same)]" reloading none_same "[]"]
  from T m' have e: "fst (render idle all_same (renders [(first_view, none_same)] no_cells)) =
      fst (render reloading none_same (renders [] no_cells))"
    by (rule conjunct2 [THEN mp])
  from T have "the_totalBalance
        (fst (render idle all_same (renders [(first_view, none_same)] no_cells))) =
      totalBalance (rows holdings (prices idle))"
    by simp
  then have t: "the_totalBalance
        (fst (render idle all_same (renders [(first_view, none_same)] no_cells))) =
      Fin (323155 / 2)"
    by (simp add: idle_def totalBalance_def foldl_js_add_zero seed_rows_values)
  from derivation_deterministic [of first_view none_same "[]" first_view none_same "[]"]
  have "the_totalBalance (fst (render first_view none_same no_cells)) =
      totalBalance (rows holdings (prices first_view))"
    by simp
  then have z: "the_totalBalance (fst (render first_view none_same no_cells)) = Fin 0"
    by (simp add: first_view_def holdings_def aggregates_empty_prices)
  from m' n e t z show ?thesis
    by (intro conjI)
qed

section \<open>The day-change marker\<close>

lemma clamp_range:
  assumes "n \<noteq> NaN"
  shows "in_range (clamp n (Fin (- 99)) (Fin 999))"
    and "clamp n (Fin (- 99)) (Fin 999) = n \<longleftrightarrow> in_range n"
  using assms by (cases n; simp add: clamp_def in_range_def; fail)+

text \<open>
  Claim C10, as amended. The day-change marker shows the clamp of the day change
  percentage to \<open>[-99, 999]\<close>. Whenever the day change percentage is not \<open>NaN\<close>, the number
  shown lies in that interval, and it differs from the derived percentage whenever that
  one lies outside the interval.
\<close>

theorem day_change_shown_clamped:
  assumes "dayChangePct (rows hs ps) (totalBalance (rows hs ps)) \<noteq> NaN"
  shows "dayChangeShown hs ps =
      clamp (dayChangePct (rows hs ps) (totalBalance (rows hs ps))) (Fin (- 99)) (Fin 999) \<and>
    js_le (Fin (- 99)) (dayChangeShown hs ps) \<and> js_le (dayChangeShown hs ps) (Fin 999) \<and>
    (\<not> in_range (dayChangePct (rows hs ps) (totalBalance (rows hs ps))) \<longrightarrow>
       dayChangeShown hs ps \<noteq> dayChangePct (rows hs ps) (totalBalance (rows hs ps)))"
  using clamp_range [OF assms] by (simp add: dayChangeShown_def in_range_def)

lemma btc_surge_pct:
  "dayChangePct (rows [hd holdings] btc_surge) (totalBalance (rows [hd holdings] btc_surge)) = Fin 1900"
  by (simp add: dayChangePct_def yesterday_def totalBalance_def rows_def row_def Let_def
      holdings_def btc_surge_def priceYesterday_def js_sub_def)

theorem day_change_shown_clamped_witness:
  "dayChangePct (rows [hd holdings] btc_surge) (totalBalance (rows [hd holdings] btc_surge)) = Fin 1900 \<and>
   dayChangeShown [hd holdings] btc_surge = Fin 999"
proof -
  have ne: "dayChangePct (rows [hd holdings] btc_surge) (totalBalance (rows [hd holdings] btc_surge)) \<noteq> NaN"
    by (simp add: btc_surge_pct)
  from day_change_shown_clamped [OF ne] show ?thesis
    by (simp add: btc_surge_pct clamp_def)
qed

text \<open>
  With the mocked holdings and a 24h change of \<open>-100\<close> for BTC the day change percentage
  is \<open>NaN\<close>, the clamp returns \<open>NaN\<close>, and the number shown is not in the interval.
\<close>

theorem day_change_shown_counterexample:
  "dayChangePct (rows holdings crash_prices) (totalBalance (rows holdings crash_prices)) = NaN \<and>
   dayChangeShown holdings crash_prices = NaN \<and>
   \<not> (js_le (Fin (- 99)) (dayChangeShown holdings crash_prices) \<and>
      js_le (dayChangeShown holdings crash_prices) (Fin 999))"
proof -
  have y: "yesterday (rows holdings crash_prices) = PInf"
    by (simp add: yesterday_def rows_def row_def Let_def holdings_def crash_prices_def
        priceYesterday_def inf_of_sign_def)
  have t: "totalBalance (rows holdings crash_prices) = Fin (323155 / 2)"
    by (simp add: totalBalance_def rows_def row_def Let_def holdings_def crash_prices_def)
  have p: "dayChangePct (rows holdings crash_prices) (totalBalance (rows holdings crash_prices)) = NaN"
    by (simp add: dayChangePct_def y t js_sub_def)
  then show ?thesis
    by (simp add: dayChangeShown_def clamp_def)
qed

section \<open>The random walk of the store\<close>

lemma update_fresh: "k \<notin> fst ` set al \<Longrightarrow> AList.update k v al = al @ [(k, v)]"
  by (induction al) auto

lemma spread_aux:
  "distinct (map fst m) \<Longrightarrow> fst ` set acc \<inter> fst ` set m = {} \<Longrightarrow>
   foldl (\<lambda>acc (k, v). AList.update k v acc) acc m = acc @ m"
proof (induction m arbitrary: acc)
  case Nil
  then show ?case by simp
next
  case (Cons e m)
  obtain k v where e: "e = (k, v)" by (cases e)
  have fresh: "k \<notin> fst ` set acc"
    using Cons.prems(2) by (auto simp add: e)
  have "fst ` set (acc @ [(k, v)]) \<inter> fst ` set m = {}"
    using Cons.prems by (auto simp add: e)
  moreover have "distinct (map fst m)"
    using Cons.prems(1) by simp
  ultimately have "foldl (\<lambda>acc (k, v). AList.update k v acc) (acc @ [(k, v)]) m = (acc @ [(k, v)]) @ m"
    by (rule Cons.IH [rotated])
  then show ?case
    by (simp add: e update_fresh [OF fresh])
qed

lemma spread_object: "object m \<Longrightarrow> spread m = m"
  using spread_aux [of m "[]"] by (simp add: spread_def object_def)

lemma randBetween_Fin: "randBetween (Fin u) (Fin a) (Fin b) = Fin (u * (b - a) + a)"
  by (simp add: randBetween_def js_sub_def)

lemma filter_plain: "''__proto__'' \<notin> set ks \<Longrightarrow> filter (\<lambda>k. k \<noteq> ''__proto__'') ks = ks"
  by (induction ks) auto

lemma walk_keys: "map fst (walk rnd i es) = filter (\<lambda>k. k \<noteq> ''__proto__'') (map fst es)"
  by (induction rnd i es rule: walk.induct) simp_all



lemma refresh_loop_walk:
  assumes "distinct (map fst es)" and "fst ` set nxt \<inter> fst ` set es = {}"
    and "\<forall>(k, cur) \<in> set es. map_of st k = Some cur"
  shows "refresh_loop rnd i st (map fst es) nxt = Inr (nxt @ walk rnd i es)"
  using assms
proof (induction es arbitrary: i nxt)
  case Nil
  then show ?case by simp
next
  case (Cons e es)
  obtain k cur where e: "e = (k, cur)" by (cases e)
  have look: "map_of st k = Some cur"
    using Cons.prems(3) by (simp add: e)
  have fresh: "k \<notin> fst ` set nxt"
    using Cons.prems(2) by (auto simp add: e)
  let ?p = "perturb (rnd i) (rnd (i + 1)) k cur"
  have d: "distinct (map fst es)"
    using Cons.prems(1) by simp
  have rest: "\<forall>(k, cur) \<in> set es. map_of st k = Some cur"
    using Cons.prems(3) by simp
  show ?case
  proof (cases "k = ''__proto__''")
    case True
    have "fst ` set nxt \<inter> fst ` set es = {}"
      using Cons.prems(2) by auto
    with d have "refresh_loop rnd (i + 2) st (map fst es) nxt = Inr (nxt @ walk rnd (i + 2) es)"
      using rest by (rule Cons.IH)
    then show ?thesis
      using look by (simp add: e Let_def True)
  next
    case False
    have disj: "fst ` set (nxt @ [(k, ?p)]) \<inter> fst ` set es = {}"
      using Cons.prems(1,2) by (auto simp add: e)
    have "refresh_loop rnd (i + 2) st (map fst es) (nxt @ [(k, ?p)]) =
        Inr ((nxt @ [(k, ?p)]) @ walk rnd (i + 2) es)"
      using d disj rest by (rule Cons.IH)
    then show ?thesis
      by (simp add: e look Let_def False randBetween_Fin perturb_def update_fresh [OF fresh]
          algebra_simps)
  qed
qed

lemma refresh_loop_object:
  assumes "object st"
  shows "refresh_loop rnd 0 st (Object_keys st) [] = Inr (walk rnd 0 st)"
proof -
  have d: "distinct (map fst st)"
    using assms by (simp add: object_def)
  then have "\<forall>(k, cur) \<in> set st. map_of st k = Some cur"
    by auto
  with d have "refresh_loop rnd 0 st (map fst st) [] = Inr ([] @ walk rnd 0 st)"
    by (intro refresh_loop_walk) simp_all
  then show ?thesis
    by (simp add: Object_keys_def)
qed

lemma object_walk: "object st \<Longrightarrow> object (walk rnd i st)"
  by (simp add: object_def walk_keys)

lemma refreshMockPrices_object:
  assumes "object st"
  shows "refreshMockPrices rnd st = Inr (walk rnd 0 st, walk rnd 0 st)"
  using assms
  by (simp add: refreshMockPrices_def refresh_loop_object spread_object object_walk)









lemma object_state: "object state"
  by (simp add: object_def state_def)

lemma state_plain: "''__proto__'' \<notin> set (Object_keys state)"
  by (simp add: Object_keys_def state_def)




lemma advances_keys:
  assumes "object st" and "''__proto__'' \<notin> set (Object_keys st)"
  shows "\<exists>s. advances rnds st = Inr s \<and> object s \<and> Object_keys s = Object_keys st"
  using assms
proof (induction rnds arbitrary: st)
  case Nil
  then show ?case by simp
next
  case (Cons rnd rnds)
  let ?n = "walk rnd 0 st"
  have "filter (\<lambda>k. k \<noteq> ''__proto__'') (map fst st) = map fst st"
    using Cons.prems(2) by (intro filter_plain) (simp add: Object_keys_def)
  then have keys: "Object_keys ?n = Object_keys st"
    by (simp add: Object_keys_def walk_keys)
  have "object ?n"
    using Cons.prems(1) by (rule object_walk)
  moreover have "''__proto__'' \<notin> set (Object_keys ?n)"
    unfolding keys by (rule Cons.prems(2))
  ultimately obtain s where "advances rnds ?n = Inr s" "object s" "Object_keys s = Object_keys ?n"
    using Cons.IH by blast
  then show ?case
    using Cons.prems(1) by (simp add: refreshMockPrices_object keys)
qed

text \<open>
  Claim C5, as amended. For every price map, \<^verbatim>\<open>refreshMockPrices\<close> returns and installs a
  map with the keys of its input other than \<^verbatim>\<open>__proto__\<close>, in their order: for a price map
  without an own key \<^verbatim>\<open>__proto__\<close>, exactly the keys of its input. The store is seeded with
  BTC, ETH, SOL and XRP, so after every run of refreshes from the seed the store has
  exactly these four keys.
\<close>

theorem advance_keeps_keys:
  "(object st \<longrightarrow>
      (\<exists>nxt. refreshMockPrices rnd st = Inr (nxt, nxt) \<and> object nxt \<and>
         Object_keys nxt = filter (\<lambda>k. k \<noteq> ''__proto__'') (Object_keys st) \<and>
         (''__proto__'' \<notin> set (Object_keys st) \<longrightarrow>
            Object_keys nxt = Object_keys st \<and> set (Object_keys nxt) = set (Object_keys st)))) \<and>
   (\<exists>s. advances rnds state = Inr s \<and> object s \<and>
      Object_keys s = [''BTC'', ''ETH'', ''SOL'', ''XRP''] \<and>
      set (Object_keys s) = {''BTC'', ''ETH'', ''SOL'', ''XRP''})"
proof -
  have a: "\<exists>nxt. refreshMockPrices rnd st = Inr (nxt, nxt) \<and> object nxt \<and>
         Object_keys nxt = filter (\<lambda>k. k \<noteq> ''__proto__'') (Object_keys st) \<and>
         (''__proto__'' \<notin> set (Object_keys st) \<longrightarrow>
            Object_keys nxt = Object_keys st \<and> set (Object_keys nxt) = set (Object_keys st))"
    if "object st"
  proof -
    have f: "Object_keys (walk rnd 0 st) = filter (\<lambda>k. k \<noteq> ''__proto__'') (Object_keys st)"
      by (simp add: Object_keys_def walk_keys)
    have g: "Object_keys (walk rnd 0 st) = Object_keys st"
      if p: "''__proto__'' \<notin> set (Object_keys st)"
      unfolding f using p by (rule filter_plain)
    have "refreshMockPrices rnd st = Inr (walk rnd 0 st, walk rnd 0 st)"
      using \<open>object st\<close> by (rule refreshMockPrices_object)
    moreover have "object (walk rnd 0 st)"
      using \<open>object st\<close> by (rule object_walk)
    ultimately show ?thesis
      using f g by (intro exI [of _ "walk rnd 0 st"]) simp
  qed
  have k: "Object_keys state = [''BTC'', ''ETH'', ''SOL'', ''XRP'']"
    by (simp add: Object_keys_def state_def)
  obtain s where s: "advances rnds state = Inr s" "object s" "Object_keys s = Object_keys state"
    using advances_keys [OF object_state state_plain] by blast
  then have b: "\<exists>s. advances rnds state = Inr s \<and> object s \<and>
      Object_keys s = [''BTC'', ''ETH'', ''SOL'', ''XRP''] \<and>
      set (Object_keys s) = {''BTC'', ''ETH'', ''SOL'', ''XRP''}"
    by (intro exI [of _ s]) (simp add: k)
  show ?thesis
  proof (intro conjI impI)
    assume "object st"
    then show "\<exists>nxt. refreshMockPrices rnd st = Inr (nxt, nxt) \<and> object nxt \<and>
         Object_keys nxt = filter (\<lambda>k. k \<noteq> ''__proto__'') (Object_keys st) \<and>
         (''__proto__'' \<notin> set (Object_keys st) \<longrightarrow>
            Object_keys nxt = Object_keys st \<and> set (Object_keys nxt) = set (Object_keys st))"
      by (rule a)
  next
    show "\<exists>s. advances rnds state = Inr s \<and> object s \<and>
      Object_keys s = [''BTC'', ''ETH'', ''SOL'', ''XRP''] \<and>
      set (Object_keys s) = {''BTC'', ''ETH'', ''SOL'', ''XRP''}"
      by (rule b)
  qed
qed

theorem advance_keeps_keys_witness:
  "object state \<and> ''__proto__'' \<notin> set (Object_keys state) \<and>
   (\<exists>nxt. refreshMockPrices (always (1 / 2)) state = Inr (nxt, nxt) \<and>
      Object_keys nxt = Object_keys state) \<and>
   (\<exists>s. advances [always (1 / 2), always (1 / 4)] state = Inr s \<and>
      set (Object_keys s) = {''BTC'', ''ETH'', ''SOL'', ''XRP''})"
proof -
  note T = advance_keeps_keys [of state "always (1 / 2)" "[always (1 / 2), always (1 / 4)]"]
  from T [THEN conjunct1, rule_format, OF object_state]
  obtain nxt where n: "refreshMockPrices (always (1 / 2)) state = Inr (nxt, nxt) \<and> object nxt \<and>
         Object_keys nxt = filter (\<lambda>k. k \<noteq> ''__proto__'') (Object_keys state) \<and>
         (''__proto__'' \<notin> set (Object_keys state) \<longrightarrow>
            Object_keys nxt = Object_keys state \<and> set (Object_keys nxt) = set (Object_keys state))" ..
  from n have r: "refreshMockPrices (always (1 / 2)) state = Inr (nxt, nxt)"
    by (rule conjunct1)
  from n have "''__proto__'' \<notin> set (Object_keys state) \<longrightarrow>
      Object_keys nxt = Object_keys state \<and> set (Object_keys nxt) = set (Object_keys state)"
    by (rule conjunct2 [THEN conjunct2, THEN conjunct2])
  from this state_plain have "Object_keys nxt = Object_keys state"
    by (rule mp [THEN conjunct1])
  with r have "refreshMockPrices (always (1 / 2)) state = Inr (nxt, nxt) \<and>
      Object_keys nxt = Object_keys state"
    by (rule conjI)
  then have first: "\<exists>nxt. refreshMockPrices (always (1 / 2)) state = Inr (nxt, nxt) \<and>
      Object_keys nxt = Object_keys state" ..
  have second: "\<exists>s. advances [always (1 / 2), always (1 / 4)] state = Inr s \<and>
      set (Object_keys s) = {''BTC'', ''ETH'', ''SOL'', ''XRP''}"
    using T [THEN conjunct2] by blast
  show ?thesis
    using object_state state_plain first second by (intro conjI)
qed

text \<open>
  A price map with the own keys BTC and \<^verbatim>\<open>__proto__\<close>: the map returned and installed has
  the key BTC only.
\<close>

theorem advance_keeps_keys_counterexample:
  "object proto_prices \<and>
   Object_keys proto_prices = [''BTC'', ''__proto__''] \<and>
   refreshMockPrices (always (1 / 2)) proto_prices =
     Inr ([(''BTC'', \<lparr>symbol = ''BTC'', price = Fin 1185000, change24hPct = Fin (142 / 100)\<rparr>)],
          [(''BTC'', \<lparr>symbol = ''BTC'', price = Fin 1185000, change24hPct = Fin (142 / 100)\<rparr>)]) \<and>
   Object_keys [(''BTC'', \<lparr>symbol = ''BTC'', price = Fin 1185000, change24hPct = Fin (142 / 100)\<rparr>)] =
     [''BTC''] \<and>
   set [''BTC''] \<noteq> set (Object_keys proto_prices)"
proof -
  have a: "object proto_prices"
    by (simp add: object_def proto_prices_def)
  have b: "Object_keys proto_prices = [''BTC'', ''__proto__'']"
    by (simp add: Object_keys_def proto_prices_def)
  have c: "refreshMockPrices (always (1 / 2)) proto_prices =
     Inr ([(''BTC'', \<lparr>symbol = ''BTC'', price = Fin 1185000, change24hPct = Fin (142 / 100)\<rparr>)],
          [(''BTC'', \<lparr>symbol = ''BTC'', price = Fin 1185000, change24hPct = Fin (142 / 100)\<rparr>)])"
    by (simp add: refreshMockPrices_def Object_keys_def spread_def proto_prices_def always_def
        randBetween_def round2_def js_sub_def Let_def overflow_small)
  have d: "Object_keys [(''BTC'', \<lparr>symbol = ''BTC'', price = Fin 1185000, change24hPct = Fin (142 / 100)\<rparr>)] =
     [''BTC'']"
    by (simp add: Object_keys_def)
  have e: "set [''BTC''] \<noteq> set (Object_keys proto_prices)"
    by (simp add: b)
  from a b c d e show ?thesis
    by (intro conjI)
qed

text \<open>
  Claim C9. \<^verbatim>\<open>getMockPrices\<close> leaves the store as it is, so a second call right after the
  first returns the same map; the map returned is the store itself, copied. The function
  returns a map for every store: it has no error to return.
\<close>

theorem getMockPrices_reads_only:
  "snd (getMockPrices st) = st \<and>
   fst (getMockPrices (snd (getMockPrices st))) = fst (getMockPrices st) \<and>
   (object st \<longrightarrow> fst (getMockPrices st) = st)"
  by (simp add: getMockPrices_def spread_object)

theorem getMockPrices_reads_only_witness:
  "object state \<and> fst (getMockPrices state) = state \<and> snd (getMockPrices state) = state \<and>
   fst (getMockPrices (snd (getMockPrices state))) = state"
  using getMockPrices_reads_only [of state] object_state by simp

section \<open>The refresh handler\<close>

text \<open>
  Claim C6. Every call of \<^verbatim>\<open>handleRefreshPrices\<close> sets \<open>loadingPrices\<close> before it awaits the
  store, and clears it when the awaited operation has completed, whether that one has
  returned a map or thrown. Both refresh buttons are disabled exactly when the flag is
  set. One whole run shows the flag set while it is suspended and cleared at its end, with
  the new prices installed on success and the old ones kept on failure. The handler does
  not look at the flag: called while the flag is set it does what it does otherwise.
\<close>

theorem refresh_busy_flag:
  "loadingPrices (handleRefreshPrices_call v) \<and>
   \<not> loadingPrices (snd (handleRefreshPrices_resume res w)) \<and>
   refresh_prices_disabled u = loadingPrices u \<and>
   mini_refresh_disabled u = loadingPrices u \<and>
   (case handleRefreshPrices advance st v of
      (busy, out, st', v') \<Rightarrow>
        loadingPrices busy \<and> refresh_prices_disabled busy \<and> mini_refresh_disabled busy \<and>
        prices busy = prices v \<and>
        \<not> loadingPrices v' \<and> \<not> refresh_prices_disabled v' \<and> \<not> mini_refresh_disabled v' \<and>
        (case advance st of
           Inl e \<Rightarrow> out = Inl e \<and> prices v' = prices v \<and> st' = st
         | Inr (nxt, s) \<Rightarrow> out = Inr () \<and> prices v' = nxt \<and> st' = s)) \<and>
   handleRefreshPrices advance st (v\<lparr>loadingPrices := True\<rparr>) =
     handleRefreshPrices advance st (v\<lparr>loadingPrices := False\<rparr>)"
proof -
  have a: "loadingPrices (handleRefreshPrices_call v)"
    by (simp add: handleRefreshPrices_call_def)
  have b: "\<not> loadingPrices (snd (handleRefreshPrices_resume res w))"
    by (cases res) (simp_all add: handleRefreshPrices_resume_def)
  have c: "refresh_prices_disabled u = loadingPrices u" "mini_refresh_disabled u = loadingPrices u"
    by (simp_all add: refresh_prices_disabled_def mini_refresh_disabled_def)
  have d: "case handleRefreshPrices advance st v of
      (busy, out, st', v') \<Rightarrow>
        loadingPrices busy \<and> refresh_prices_disabled busy \<and> mini_refresh_disabled busy \<and>
        prices busy = prices v \<and>
        \<not> loadingPrices v' \<and> \<not> refresh_prices_disabled v' \<and> \<not> mini_refresh_disabled v' \<and>
        (case advance st of
           Inl e \<Rightarrow> out = Inl e \<and> prices v' = prices v \<and> st' = st
         | Inr (nxt, s) \<Rightarrow> out = Inr () \<and> prices v' = nxt \<and> st' = s)"
    by (cases "advance st")
      (auto simp add: handleRefreshPrices_def handleRefreshPrices_call_def
        handleRefreshPrices_resume_def refresh_prices_disabled_def mini_refresh_disabled_def)
  have e: "handleRefreshPrices advance st (v\<lparr>loadingPrices := True\<rparr>) =
     handleRefreshPrices advance st (v\<lparr>loadingPrices := False\<rparr>)"
    by (simp add: handleRefreshPrices_def handleRefreshPrices_call_def)
  from a b c d e show ?thesis
    by (intro conjI)
qed

theorem refresh_busy_flag_witness:
  "handleRefreshPrices failing state idle =
     (idle\<lparr>loadingPrices := True\<rparr>, Inl TypeError, state, idle) \<and>
   fst (handleRefreshPrices (refreshMockPrices (always (1 / 2))) state idle) =
     idle\<lparr>loadingPrices := True\<rparr> \<and>
   \<not> loadingPrices (snd (snd (snd (handleRefreshPrices (refreshMockPrices (always (1 / 2))) state idle))))"
proof -
  have a: "handleRefreshPrices failing state idle =
     (idle\<lparr>loadingPrices := True\<rparr>, Inl TypeError, state, idle)"
    by (simp add: handleRefreshPrices_def handleRefreshPrices_call_def
        handleRefreshPrices_resume_def failing_def idle_def)
  have b: "fst (handleRefreshPrices (refreshMockPrices (always (1 / 2))) state idle) =
     idle\<lparr>loadingPrices := True\<rparr>"
    by (simp add: handleRefreshPrices_def handleRefreshPrices_call_def Let_def
        split: sum.splits prod.splits)
  from refresh_busy_flag [where advance = "refreshMockPrices (always (1 / 2))" and st = state
      and v = idle and u = idle and w = idle and res = "Inl TypeError"]
  have c: "\<not> loadingPrices (snd (snd (snd (handleRefreshPrices (refreshMockPrices (always (1 / 2))) state idle))))"
    by (simp add: case_prod_unfold)
  from a b c show ?thesis
    by (intro conjI)
qed

end
